theory Spec2Isabelle
  imports Main
begin

section \<open>Field operations of the migration engine\<close>

text \<open>
  A shallow embedding of \<^verbatim>\<open>django/db/migrations/operations/fields.py\<close>: the four
  operations \<^verbatim>\<open>AddField\<close>, \<^verbatim>\<open>RemoveField\<close>, \<^verbatim>\<open>AlterField\<close> and \<^verbatim>\<open>RenameField\<close>.
  Field descriptors are mutable Python objects, so they live in an explicit store and
  operations and project states hold references to them. Every \<^verbatim>\<open>raise\<close> of the source
  is a value \<open>Inl e\<close> of the result type.
\<close>

subsection \<open>Python values, strings and errors\<close>

datatype pyvalue = PyNone | PyBool bool | PyInt int | PyStr string

text \<open>
  Python's \<^verbatim>\<open>==\<close> on these values: \<^verbatim>\<open>bool\<close> is a subtype of \<^verbatim>\<open>int\<close>, so \<^verbatim>\<open>True == 1\<close>
  and \<^verbatim>\<open>False == 0\<close>; values of other types are equal within their type only.
\<close>

fun py_eq :: "pyvalue \<Rightarrow> pyvalue \<Rightarrow> bool" where
  "py_eq PyNone PyNone = True"
| "py_eq (PyBool a) (PyBool b) = (a = b)"
| "py_eq (PyInt i) (PyInt j) = (i = j)"
| "py_eq (PyStr s) (PyStr t) = (s = t)"
| "py_eq (PyBool a) (PyInt j) = ((if a then 1 else 0) = j)"
| "py_eq (PyInt i) (PyBool b) = (i = (if b then 1 else 0))"
| "py_eq _ _ = False"

text \<open>
  \<^verbatim>\<open>==\<close> on two dictionaries, each written as the list of its items (the first item of a
  key is the one that counts): the same keys, with equal values, whatever the order.
\<close>

definition dict_eq :: "(string \<times> pyvalue) list \<Rightarrow> (string \<times> pyvalue) list \<Rightarrow> bool" where
  "dict_eq d1 d2 =
     list_all (\<lambda>k. rel_option py_eq (map_of d1 k) (map_of d2 k)) (map fst d1 @ map fst d2)"

datatype error = KeyError | AttributeError | LookupError | FieldDoesNotExist | BackendError

text \<open>\<^verbatim>\<open>str.lower()\<close> on ASCII identifiers: the letters A..Z move to a..z.\<close>

definition lower_char :: "char \<Rightarrow> char" where
  "lower_char c =
     (let n = (of_char c :: nat) in if 65 \<le> n \<and> n \<le> 90 then char_of (n + 32) else c)"

definition lower :: "string \<Rightarrow> string" where
  "lower s = map lower_char s"

subsection \<open>Field descriptors and the object store\<close>

text \<open>
  \<^verbatim>\<open>NOT_PROVIDED\<close> is the sentinel imported from \<^verbatim>\<open>django.db.models.fields\<close>.
\<close>

datatype default_value = NOT_PROVIDED | Provided pyvalue

type_synonym ref = nat

text \<open>
  A rendered model class, as \<^verbatim>\<open>state.render().get_model(...)\<close> returns it: its label and
  name, and the field objects it was built with. The renderer and the field lookup are
  collaborators (see below); operations only pass model classes on.
\<close>

record model_class =
  meta_app_label :: string
  meta_object_name :: string
  meta_fields :: "(string \<times> ref) list"

text \<open>
  The target of a relation (\<^verbatim>\<open>field.rel.to\<close>) is either a string naming a model that
  is not resolved yet, or a model class.
\<close>

datatype rel_target = Unresolved string | Resolved model_class

record rel_obj =
  to :: rel_target

record field_obj =
  field_name :: "string option"
  path :: string
  args :: "pyvalue list"
  kwargs :: "(string \<times> pyvalue) list"
  default :: default_value
  rel :: "rel_obj option"

datatype backend_call =
    Add_field model_class ref field_obj
  | Remove_field model_class ref field_obj
  | Alter_field model_class ref field_obj ref field_obj

text \<open>
  The world the operations run in: the store of field objects (every reference below
  \<open>next_ref\<close> is an allocated object) and the trace of the calls made to the schema
  editor, each with the field objects as they were when the call was made.
\<close>

record world =
  heap :: "ref \<Rightarrow> field_obj"
  next_ref :: nat
  calls :: "backend_call list"

definition set_default :: "ref \<Rightarrow> default_value \<Rightarrow> world \<Rightarrow> world" where
  "set_default r d w = w\<lparr>heap := (heap w)(r := (heap w r)\<lparr>default := d\<rparr>)\<rparr>"

text \<open>
  Modelled from the spec: \<^verbatim>\<open>Field.clone()\<close> is defined in \<^verbatim>\<open>django.db.models.fields\<close>,
  outside this module; the spec says the field "is cloned", which is modelled as allocating
  a new object that carries the attributes of the original.
\<close>

definition clone :: "ref \<Rightarrow> world \<Rightarrow> ref \<times> world" where
  "clone r w = (next_ref w, w\<lparr>heap := (heap w)(next_ref w := heap w r), next_ref := Suc (next_ref w)\<rparr>)"

subsection \<open>Project state\<close>

record model_state =
  fields' :: "(string \<times> ref) list"

record project_state =
  models :: "(string \<times> string) \<rightharpoonup> model_state"

subsection \<open>Operations\<close>

datatype operation =
    AddField (model_name: string) (name: string) (field: ref) (preserve_default: bool)
  | RemoveField (model_name: string) (name: string)
  | AlterField (model_name: string) (name: string) (field: ref)
  | RenameField (model_name: string) (old_name: string) (new_name: string)

text \<open>
  The loop of \<^verbatim>\<open>RemoveField.state_forwards\<close>, with \<^verbatim>\<open>new_fields\<close> as accumulator.
\<close>

fun remove_loop :: "string \<Rightarrow> (string \<times> ref) list \<Rightarrow> (string \<times> ref) list \<Rightarrow> (string \<times> ref) list" where
  "remove_loop self_name [] new_fields = new_fields"
| "remove_loop self_name ((n, instance) # rest) new_fields =
     remove_loop self_name rest
       (if n \<noteq> self_name then new_fields @ [(n, instance)] else new_fields)"

text \<open>
  \<^verbatim>\<open>state_forwards(self, app_label, state)\<close> of each class. The lookup
  \<^verbatim>\<open>state.models[app_label, self.model_name.lower()]\<close> raises \<^verbatim>\<open>KeyError\<close> when the model
  is not in the state. Only \<^verbatim>\<open>AddField\<close> touches the store (the clone is made before the
  lookup).
\<close>

definition AddField_state_forwards ::
  "operation \<Rightarrow> string \<Rightarrow> project_state \<Rightarrow> world \<Rightarrow> error + (project_state \<times> world)" where
  "AddField_state_forwards self app_label state w =
     (let (fld, w') =
            (if \<not> preserve_default self
             then (let (c, w1) = clone (field self) w in (c, set_default c NOT_PROVIDED w1))
             else (field self, w))
      in case models state (app_label, lower (model_name self)) of
           None \<Rightarrow> Inl KeyError
         | Some ms \<Rightarrow>
             Inr (state\<lparr>models := (models state)((app_label, lower (model_name self)) \<mapsto>
                    ms\<lparr>fields' := fields' ms @ [(name self, fld)]\<rparr>)\<rparr>, w'))"

definition RemoveField_state_forwards ::
  "operation \<Rightarrow> string \<Rightarrow> project_state \<Rightarrow> world \<Rightarrow> error + (project_state \<times> world)" where
  "RemoveField_state_forwards self app_label state w =
     (case models state (app_label, lower (model_name self)) of
        None \<Rightarrow> Inl KeyError
      | Some ms \<Rightarrow>
          Inr (state\<lparr>models := (models state)((app_label, lower (model_name self)) \<mapsto>
                 ms\<lparr>fields' := remove_loop (name self) (fields' ms) []\<rparr>)\<rparr>, w))"

definition AlterField_state_forwards ::
  "operation \<Rightarrow> string \<Rightarrow> project_state \<Rightarrow> world \<Rightarrow> error + (project_state \<times> world)" where
  "AlterField_state_forwards self app_label state w =
     (case models state (app_label, lower (model_name self)) of
        None \<Rightarrow> Inl KeyError
      | Some ms \<Rightarrow>
          Inr (state\<lparr>models := (models state)((app_label, lower (model_name self)) \<mapsto>
                 ms\<lparr>fields' := map (\<lambda>(n, f). (n, if n = name self then field self else f))
                                  (fields' ms)\<rparr>)\<rparr>, w))"

definition RenameField_state_forwards ::
  "operation \<Rightarrow> string \<Rightarrow> project_state \<Rightarrow> world \<Rightarrow> error + (project_state \<times> world)" where
  "RenameField_state_forwards self app_label state w =
     (case models state (app_label, lower (model_name self)) of
        None \<Rightarrow> Inl KeyError
      | Some ms \<Rightarrow>
          Inr (state\<lparr>models := (models state)((app_label, lower (model_name self)) \<mapsto>
                 ms\<lparr>fields' := map (\<lambda>(n, f). (if n = old_name self then new_name self else n, f))
                                  (fields' ms)\<rparr>)\<rparr>, w))"

text \<open>The method call \<^verbatim>\<open>op.state_forwards(app_label, state)\<close> dispatches on the class.\<close>

definition state_forwards ::
  "operation \<Rightarrow> string \<Rightarrow> project_state \<Rightarrow> world \<Rightarrow> error + (project_state \<times> world)" where
  "state_forwards self =
     (case self of
        AddField _ _ _ _ \<Rightarrow> AddField_state_forwards self
      | RemoveField _ _ \<Rightarrow> RemoveField_state_forwards self
      | AlterField _ _ _ \<Rightarrow> AlterField_state_forwards self
      | RenameField _ _ _ \<Rightarrow> RenameField_state_forwards self)"

subsection \<open>Collaborators of the database methods\<close>

text \<open>
  The renderer, the router and the schema editor are defined outside this module and are
  parameters of the model. \<open>render_get_model state app_label model_name\<close> stands for
  \<^verbatim>\<open>state.render().get_model(app_label, model_name)\<close>, \<open>get_new_field model name True\<close>
  for \<^verbatim>\<open>model._meta.get_new_field(name, True)\<close>, and \<open>allow_migrate alias model\<close> for
  \<^verbatim>\<open>router.allow_migrate(alias, model)\<close>. The lookups may raise.
\<close>

record collaborators =
  render_get_model :: "project_state \<Rightarrow> string \<Rightarrow> string \<Rightarrow> error + model_class"
  get_new_field :: "model_class \<Rightarrow> string \<Rightarrow> bool \<Rightarrow> error + ref"
  allow_migrate :: "string \<Rightarrow> model_class \<Rightarrow> bool"

text \<open>
  A schema editor has the alias of its connection and a backend, which sees the call and
  the field objects, and either raises or returns, possibly having changed field objects.
\<close>

record schema_editor =
  connection_alias :: string
  backend :: "backend_call \<Rightarrow> (ref \<Rightarrow> field_obj) \<Rightarrow> error + (ref \<Rightarrow> field_obj)"

definition invoke :: "schema_editor \<Rightarrow> backend_call \<Rightarrow> world \<Rightarrow> error + world" where
  "invoke schema_editor c w =
     (case backend schema_editor c (heap w) of
        Inl e \<Rightarrow> Inl e
      | Inr h \<Rightarrow> Inr (w\<lparr>heap := h, calls := calls w @ [c]\<rparr>))"

definition add_field :: "schema_editor \<Rightarrow> model_class \<Rightarrow> ref \<Rightarrow> world \<Rightarrow> error + world" where
  "add_field schema_editor model fld w = invoke schema_editor (Add_field model fld (heap w fld)) w"

definition remove_field :: "schema_editor \<Rightarrow> model_class \<Rightarrow> ref \<Rightarrow> world \<Rightarrow> error + world" where
  "remove_field schema_editor model fld w =
     invoke schema_editor (Remove_field model fld (heap w fld)) w"

definition alter_field ::
  "schema_editor \<Rightarrow> model_class \<Rightarrow> ref \<Rightarrow> ref \<Rightarrow> world \<Rightarrow> error + world" where
  "alter_field schema_editor model from_field to_field w =
     invoke schema_editor
       (Alter_field model from_field (heap w from_field) to_field (heap w to_field)) w"

subsection \<open>AddField\<close>

definition AddField_database_forwards ::
  "collaborators \<Rightarrow> operation \<Rightarrow> string \<Rightarrow> schema_editor \<Rightarrow> project_state \<Rightarrow> project_state \<Rightarrow>
   world \<Rightarrow> error + world" where
  "AddField_database_forwards C self app_label schema_editor from_state to_state w =
     (case render_get_model C from_state app_label (model_name self) of
        Inl e \<Rightarrow> Inl e
      | Inr from_model \<Rightarrow>
     (case render_get_model C to_state app_label (model_name self) of
        Inl e \<Rightarrow> Inl e
      | Inr to_model \<Rightarrow>
     if allow_migrate C (connection_alias schema_editor) to_model then
       (case get_new_field C to_model (name self) True of
          Inl e \<Rightarrow> Inl e
        | Inr fld \<Rightarrow>
            (let w1 = (if \<not> preserve_default self
                       then set_default fld (default (heap w (field self))) w else w)
             in case add_field schema_editor from_model fld w1 of
                  Inl e \<Rightarrow> Inl e
                | Inr w2 \<Rightarrow>
                    Inr (if \<not> preserve_default self
                         then set_default fld NOT_PROVIDED w2 else w2)))
     else Inr w))"

definition AddField_database_backwards ::
  "collaborators \<Rightarrow> operation \<Rightarrow> string \<Rightarrow> schema_editor \<Rightarrow> project_state \<Rightarrow> project_state \<Rightarrow>
   world \<Rightarrow> error + world" where
  "AddField_database_backwards C self app_label schema_editor from_state to_state w =
     (case render_get_model C from_state app_label (model_name self) of
        Inl e \<Rightarrow> Inl e
      | Inr from_model \<Rightarrow>
     if allow_migrate C (connection_alias schema_editor) from_model then
       (case get_new_field C from_model (name self) True of
          Inl e \<Rightarrow> Inl e
        | Inr fld \<Rightarrow> remove_field schema_editor from_model fld w)
     else Inr w)"

subsection \<open>RemoveField\<close>

definition RemoveField_database_forwards ::
  "collaborators \<Rightarrow> operation \<Rightarrow> string \<Rightarrow> schema_editor \<Rightarrow> project_state \<Rightarrow> project_state \<Rightarrow>
   world \<Rightarrow> error + world" where
  "RemoveField_database_forwards C self app_label schema_editor from_state to_state w =
     (case render_get_model C from_state app_label (model_name self) of
        Inl e \<Rightarrow> Inl e
      | Inr from_model \<Rightarrow>
     if allow_migrate C (connection_alias schema_editor) from_model then
       (case get_new_field C from_model (name self) True of
          Inl e \<Rightarrow> Inl e
        | Inr fld \<Rightarrow> remove_field schema_editor from_model fld w)
     else Inr w)"

definition RemoveField_database_backwards ::
  "collaborators \<Rightarrow> operation \<Rightarrow> string \<Rightarrow> schema_editor \<Rightarrow> project_state \<Rightarrow> project_state \<Rightarrow>
   world \<Rightarrow> error + world" where
  "RemoveField_database_backwards C self app_label schema_editor from_state to_state w =
     (case render_get_model C from_state app_label (model_name self) of
        Inl e \<Rightarrow> Inl e
      | Inr from_model \<Rightarrow>
     (case render_get_model C to_state app_label (model_name self) of
        Inl e \<Rightarrow> Inl e
      | Inr to_model \<Rightarrow>
     if allow_migrate C (connection_alias schema_editor) to_model then
       (case get_new_field C to_model (name self) True of
          Inl e \<Rightarrow> Inl e
        | Inr fld \<Rightarrow> add_field schema_editor from_model fld w)
     else Inr w))"

subsection \<open>AlterField\<close>

text \<open>
  Python truth value of \<^verbatim>\<open>rel.to\<close>: a model class is true, a string is true unless it is
  empty. \<^verbatim>\<open>isinstance(x, six.string_types)\<close> holds of the strings.
\<close>

fun truthy :: "rel_target \<Rightarrow> bool" where
  "truthy (Unresolved s) = (s \<noteq> [])"
| "truthy (Resolved m) = True"

fun is_string :: "rel_target \<Rightarrow> bool" where
  "is_string (Unresolved s) = True"
| "is_string (Resolved m) = False"

text \<open>
  The patch of an unresolved \<^verbatim>\<open>rel.to\<close> in \<^verbatim>\<open>AlterField.database_forwards\<close> (the block
  under the "Bandaid fix" comment). Reading \<^verbatim>\<open>to_field.rel.to\<close> raises \<^verbatim>\<open>AttributeError\<close>
  when \<^verbatim>\<open>to_field.rel\<close> is \<^verbatim>\<open>None\<close>.
\<close>

definition patch_rel_to :: "ref \<Rightarrow> ref \<Rightarrow> world \<Rightarrow> error + world" where
  "patch_rel_to from_field to_field w =
     (case rel (heap w from_field) of
        None \<Rightarrow> Inr w
      | Some from_rel \<Rightarrow>
          if truthy (to from_rel) then
            (case rel (heap w to_field) of
               None \<Rightarrow> Inl AttributeError
             | Some to_rel \<Rightarrow>
                 if is_string (to from_rel) then
                   Inr (w\<lparr>heap := (heap w)(from_field :=
                          (heap w from_field)\<lparr>rel := Some (from_rel\<lparr>to := to to_rel\<rparr>)\<rparr>)\<rparr>)
                 else if is_string (to to_rel) then
                   Inr (w\<lparr>heap := (heap w)(to_field :=
                          (heap w to_field)\<lparr>rel := Some (to_rel\<lparr>to := to from_rel\<rparr>)\<rparr>)\<rparr>)
                 else Inr w)
          else Inr w)"

definition AlterField_database_forwards ::
  "collaborators \<Rightarrow> operation \<Rightarrow> string \<Rightarrow> schema_editor \<Rightarrow> project_state \<Rightarrow> project_state \<Rightarrow>
   world \<Rightarrow> error + world" where
  "AlterField_database_forwards C self app_label schema_editor from_state to_state w =
     (case render_get_model C from_state app_label (model_name self) of
        Inl e \<Rightarrow> Inl e
      | Inr from_model \<Rightarrow>
     (case render_get_model C to_state app_label (model_name self) of
        Inl e \<Rightarrow> Inl e
      | Inr to_model \<Rightarrow>
     if allow_migrate C (connection_alias schema_editor) to_model then
       (case get_new_field C from_model (name self) True of
          Inl e \<Rightarrow> Inl e
        | Inr from_field \<Rightarrow>
       (case get_new_field C to_model (name self) True of
          Inl e \<Rightarrow> Inl e
        | Inr to_field \<Rightarrow>
       (case patch_rel_to from_field to_field w of
          Inl e \<Rightarrow> Inl e
        | Inr w1 \<Rightarrow> alter_field schema_editor from_model from_field to_field w1)))
     else Inr w))"

definition AlterField_database_backwards ::
  "collaborators \<Rightarrow> operation \<Rightarrow> string \<Rightarrow> schema_editor \<Rightarrow> project_state \<Rightarrow> project_state \<Rightarrow>
   world \<Rightarrow> error + world" where
  "AlterField_database_backwards C self app_label schema_editor from_state to_state w =
     AlterField_database_forwards C self app_label schema_editor from_state to_state w"

subsection \<open>RenameField\<close>

definition RenameField_database_forwards ::
  "collaborators \<Rightarrow> operation \<Rightarrow> string \<Rightarrow> schema_editor \<Rightarrow> project_state \<Rightarrow> project_state \<Rightarrow>
   world \<Rightarrow> error + world" where
  "RenameField_database_forwards C self app_label schema_editor from_state to_state w =
     (case render_get_model C from_state app_label (model_name self) of
        Inl e \<Rightarrow> Inl e
      | Inr from_model \<Rightarrow>
     (case render_get_model C to_state app_label (model_name self) of
        Inl e \<Rightarrow> Inl e
      | Inr to_model \<Rightarrow>
     if allow_migrate C (connection_alias schema_editor) to_model then
       (case get_new_field C from_model (old_name self) True of
          Inl e \<Rightarrow> Inl e
        | Inr from_field \<Rightarrow>
       (case get_new_field C to_model (new_name self) True of
          Inl e \<Rightarrow> Inl e
        | Inr to_field \<Rightarrow> alter_field schema_editor from_model from_field to_field w))
     else Inr w))"

definition RenameField_database_backwards ::
  "collaborators \<Rightarrow> operation \<Rightarrow> string \<Rightarrow> schema_editor \<Rightarrow> project_state \<Rightarrow> project_state \<Rightarrow>
   world \<Rightarrow> error + world" where
  "RenameField_database_backwards C self app_label schema_editor from_state to_state w =
     (case render_get_model C from_state app_label (model_name self) of
        Inl e \<Rightarrow> Inl e
      | Inr from_model \<Rightarrow>
     (case render_get_model C to_state app_label (model_name self) of
        Inl e \<Rightarrow> Inl e
      | Inr to_model \<Rightarrow>
     if allow_migrate C (connection_alias schema_editor) to_model then
       (case get_new_field C from_model (new_name self) True of
          Inl e \<Rightarrow> Inl e
        | Inr from_field \<Rightarrow>
       (case get_new_field C to_model (old_name self) True of
          Inl e \<Rightarrow> Inl e
        | Inr to_field \<Rightarrow> alter_field schema_editor from_model from_field to_field w))
     else Inr w))"

subsection \<open>Method dispatch\<close>

definition database_forwards ::
  "collaborators \<Rightarrow> operation \<Rightarrow> string \<Rightarrow> schema_editor \<Rightarrow> project_state \<Rightarrow> project_state \<Rightarrow>
   world \<Rightarrow> error + world" where
  "database_forwards C self =
     (case self of
        AddField _ _ _ _ \<Rightarrow> AddField_database_forwards C self
      | RemoveField _ _ \<Rightarrow> RemoveField_database_forwards C self
      | AlterField _ _ _ \<Rightarrow> AlterField_database_forwards C self
      | RenameField _ _ _ \<Rightarrow> RenameField_database_forwards C self)"

definition database_backwards ::
  "collaborators \<Rightarrow> operation \<Rightarrow> string \<Rightarrow> schema_editor \<Rightarrow> project_state \<Rightarrow> project_state \<Rightarrow>
   world \<Rightarrow> error + world" where
  "database_backwards C self =
     (case self of
        AddField _ _ _ _ \<Rightarrow> AddField_database_backwards C self
      | RemoveField _ _ \<Rightarrow> RemoveField_database_backwards C self
      | AlterField _ _ _ \<Rightarrow> AlterField_database_backwards C self
      | RenameField _ _ _ \<Rightarrow> RenameField_database_backwards C self)"

subsection \<open>Equality of operations\<close>

datatype op_class = AddField_class | RemoveField_class | AlterField_class | RenameField_class

fun class_of :: "operation \<Rightarrow> op_class" where
  "class_of (AddField _ _ _ _) = AddField_class"
| "class_of (RemoveField _ _) = RemoveField_class"
| "class_of (AlterField _ _ _) = AlterField_class"
| "class_of (RenameField _ _ _) = RenameField_class"

text \<open>
  Modelled from the spec: \<^verbatim>\<open>Field.deconstruct()\<close> is defined in
  \<^verbatim>\<open>django.db.models.fields\<close>, outside this module. The spec calls its result the
  canonical reconstruction form: a leading self-reference element, then the logical type
  and the constructor arguments, of which the default is one unless it is "not provided".
  The keyword arguments are a dictionary.
\<close>

definition deconstruct ::
  "field_obj \<Rightarrow> string option \<times> string \<times> pyvalue list \<times> (string \<times> pyvalue) list" where
  "deconstruct f =
     (field_name f, path f, args f,
      (case default f of NOT_PROVIDED \<Rightarrow> [] | Provided v \<Rightarrow> [(''default'', v)]) @
      filter (\<lambda>(k, v). k \<noteq> ''default'') (kwargs f))"

text \<open>
  \<^verbatim>\<open>==\<close> on two tuples \<^verbatim>\<open>deconstruct()[1:]\<close>, element by element: the paths as strings,
  the positional arguments as lists, the keyword arguments as dictionaries.
\<close>

fun form_eq ::
  "string \<times> pyvalue list \<times> (string \<times> pyvalue) list \<Rightarrow>
   string \<times> pyvalue list \<times> (string \<times> pyvalue) list \<Rightarrow> bool" where
  "form_eq (path1, args1, kwargs1) (path2, args2, kwargs2) =
     (path1 = path2 \<and> list_all2 py_eq args1 args2 \<and> dict_eq kwargs1 kwargs2)"

text \<open>
  \<^verbatim>\<open>==\<close> on two values of the attribute \<^verbatim>\<open>default\<close>: the sentinel equals itself only.
\<close>

fun default_eq :: "default_value \<Rightarrow> default_value \<Rightarrow> bool" where
  "default_eq NOT_PROVIDED NOT_PROVIDED = True"
| "default_eq (Provided u) (Provided v) = py_eq u v"
| "default_eq _ _ = False"

text \<open>
  \<^verbatim>\<open>AddField.__eq__\<close> and \<^verbatim>\<open>AlterField.__eq__\<close>; \<^verbatim>\<open>deconstruct()[1:]\<close> drops the first element
  of the tuple. \<^verbatim>\<open>and\<close> stops at the first false operand, so \<^verbatim>\<open>other.name\<close> is read only
  from an object of the same class.
\<close>

definition AddField_eq :: "(ref \<Rightarrow> field_obj) \<Rightarrow> operation \<Rightarrow> operation \<Rightarrow> bool" where
  "AddField_eq h self other =
     (if class_of self = class_of other then
        (if name self = name other then
           (if lower (model_name self) = lower (model_name other) then
              form_eq (snd (deconstruct (h (field self)))) (snd (deconstruct (h (field other))))
            else False)
         else False)
      else False)"

definition AlterField_eq :: "(ref \<Rightarrow> field_obj) \<Rightarrow> operation \<Rightarrow> operation \<Rightarrow> bool" where
  "AlterField_eq h self other =
     (if class_of self = class_of other then
        (if name self = name other then
           (if lower (model_name self) = lower (model_name other) then
              form_eq (snd (deconstruct (h (field self)))) (snd (deconstruct (h (field other))))
            else False)
         else False)
      else False)"

text \<open>
  Modelled from the spec: the base class \<^verbatim>\<open>Operation\<close> is defined in the module
  \<^verbatim>\<open>.base\<close>, outside this module. The spec says that equality which is not overridden is identity-based:
  an operation object equals only itself. Operation objects are named by references.
\<close>

type_synonym op_ref = nat

definition Operation_eq :: "op_ref \<Rightarrow> op_ref \<Rightarrow> bool" where
  "Operation_eq self other = (self = other)"

text \<open>
  \<^verbatim>\<open>a == b\<close> on two operation objects: the \<^verbatim>\<open>__eq__\<close> of the class of \<^verbatim>\<open>a\<close>, which
  \<^verbatim>\<open>RemoveField\<close> and \<^verbatim>\<open>RenameField\<close> do not define.
\<close>

definition op_eq :: "(op_ref \<Rightarrow> operation) \<Rightarrow> (ref \<Rightarrow> field_obj) \<Rightarrow> op_ref \<Rightarrow> op_ref \<Rightarrow> bool" where
  "op_eq ops h a b =
     (case ops a of
        AddField _ _ _ _ \<Rightarrow> AddField_eq h (ops a) (ops b)
      | AlterField _ _ _ \<Rightarrow> AlterField_eq h (ops a) (ops b)
      | RemoveField _ _ \<Rightarrow> Operation_eq a b
      | RenameField _ _ _ \<Rightarrow> Operation_eq a b)"

subsection \<open>Sequences of operations\<close>

text \<open>
  A migration applies the \<^verbatim>\<open>state_forwards\<close> of its operations in order, each to the state
  the one before has left; the first error ends the run.
\<close>

fun apply_operations ::
  "operation list \<Rightarrow> string \<Rightarrow> project_state \<Rightarrow> world \<Rightarrow> error + (project_state \<times> world)" where
  "apply_operations [] app_label state w = Inr (state, w)"
| "apply_operations (operation # rest) app_label state w =
     (case state_forwards operation app_label state w of
        Inl e \<Rightarrow> Inl e
      | Inr (state', w') \<Rightarrow> apply_operations rest app_label state' w')"

text \<open>What can be observed of a result: a model's field list, a field's default, the trace.\<close>

definition fields_after ::
  "error + (project_state \<times> world) \<Rightarrow> string \<times> string \<Rightarrow> (string \<times> ref) list option" where
  "fields_after r key =
     (case r of Inl e \<Rightarrow> None | Inr (state, w) \<Rightarrow> map_option fields' (models state key))"

definition default_after :: "error + world \<Rightarrow> ref \<Rightarrow> default_value option" where
  "default_after r fld = (case r of Inl e \<Rightarrow> None | Inr w \<Rightarrow> Some (default (heap w fld)))"

definition calls_after :: "error + world \<Rightarrow> backend_call list option" where
  "calls_after r = (case r of Inl e \<Rightarrow> None | Inr w \<Rightarrow> Some (calls w))"

subsection \<open>Example objects\<close>

text \<open>
  The objects of the scenarios: a model \<^verbatim>\<open>Pony\<close> with an \<^verbatim>\<open>id\<close>, an
  \<^verbatim>\<open>IntegerField(default=5)\<close> to add as \<^verbatim>\<open>rating\<close>, and a foreign key to a model
  \<^verbatim>\<open>Rider\<close>.
\<close>

definition auto_field :: field_obj where
  "auto_field =
     \<lparr>field_name = Some ''id'', path = ''django.db.models.AutoField'', args = [],
      kwargs = [(''primary_key'', PyBool True)], default = NOT_PROVIDED, rel = None\<rparr>"

definition integer_field :: "default_value \<Rightarrow> field_obj" where
  "integer_field d =
     \<lparr>field_name = None, path = ''django.db.models.IntegerField'', args = [],
      kwargs = [], default = d, rel = None\<rparr>"

definition foreign_key :: "rel_target \<Rightarrow> field_obj" where
  "foreign_key t =
     \<lparr>field_name = None, path = ''django.db.models.ForeignKey'', args = [],
      kwargs = [], default = NOT_PROVIDED, rel = Some \<lparr>to = t\<rparr>\<rparr>"

definition rider_class :: model_class where
  "rider_class = \<lparr>meta_app_label = ''app'', meta_object_name = ''Rider'', meta_fields = []\<rparr>"

text \<open>Object 0 is the \<^verbatim>\<open>id\<close> field, object 1 the field given to the operation.\<close>

definition pony_state :: project_state where
  "pony_state = \<lparr>models = [(''app'', ''pony'') \<mapsto> \<lparr>fields' = [(''id'', 0)]\<rparr>]\<rparr>"

definition pony_world :: world where
  "pony_world =
     \<lparr>heap = (\<lambda>r. auto_field)(1 := integer_field (Provided (PyInt 5))),
      next_ref = 2, calls = []\<rparr>"

text \<open>
  The state and the world after \<^verbatim>\<open>AddField("Pony", "rating", IntegerField(default=5),
  preserve_default=False)\<close>: object 2 is the clone.
\<close>

definition pony_state_rating :: project_state where
  "pony_state_rating =
     \<lparr>models = [(''app'', ''pony'') \<mapsto> \<lparr>fields' = [(''id'', 0), (''rating'', 2)]\<rparr>]\<rparr>"

definition pony_world_rating :: world where
  "pony_world_rating =
     \<lparr>heap = (\<lambda>r. auto_field)(1 := integer_field (Provided (PyInt 5)),
                                 2 := integer_field NOT_PROVIDED),
      next_ref = 3, calls = []\<rparr>"

text \<open>A model with two fields, \<^verbatim>\<open>name\<close> and \<^verbatim>\<open>nickname\<close>.\<close>

definition names_state :: project_state where
  "names_state =
     \<lparr>models = [(''app'', ''pony'') \<mapsto> \<lparr>fields' = [(''name'', 0), (''nickname'', 1)]\<rparr>]\<rparr>"

text \<open>
  A renderer that builds a model class from the model's state with the same field objects,
  a field lookup by name, and a router with one answer for every model; a schema editor
  whose backend accepts every call and changes no field object.
\<close>

definition plain_collaborators :: "bool \<Rightarrow> collaborators" where
  "plain_collaborators allowed =
     \<lparr>render_get_model = (\<lambda>state app_label mname.
          case models state (app_label, lower mname) of
            None \<Rightarrow> Inl LookupError
          | Some ms \<Rightarrow> Inr \<lparr>meta_app_label = app_label, meta_object_name = mname,
                            meta_fields = fields' ms\<rparr>),
      get_new_field = (\<lambda>model fname include_hidden.
          case map_of (meta_fields model) fname of
            None \<Rightarrow> Inl FieldDoesNotExist
          | Some r \<Rightarrow> Inr r),
      allow_migrate = (\<lambda>alias model. allowed)\<rparr>"

definition plain_editor :: schema_editor where
  "plain_editor = \<lparr>connection_alias = ''default'', backend = (\<lambda>c h. Inr h)\<rparr>"

text \<open>The rendered class of \<^verbatim>\<open>Pony\<close> with a given field list.\<close>

definition pony_class :: "(string \<times> ref) list \<Rightarrow> model_class" where
  "pony_class fs = \<lparr>meta_app_label = ''app'', meta_object_name = ''Pony'', meta_fields = fs\<rparr>"

text \<open>
  A \<^verbatim>\<open>Pony\<close> whose only field \<^verbatim>\<open>rider\<close> is object \<open>r\<close>, in a world where object 0 is a
  foreign key with target \<open>t\<close> and every other object a foreign key to the class \<^verbatim>\<open>Rider\<close>.
\<close>

definition rider_state :: "ref \<Rightarrow> project_state" where
  "rider_state r = \<lparr>models = [(''app'', ''pony'') \<mapsto> \<lparr>fields' = [(''rider'', r)]\<rparr>]\<rparr>"

definition rider_world :: "rel_target \<Rightarrow> world" where
  "rider_world t =
     \<lparr>heap = (\<lambda>r. foreign_key (Resolved rider_class))(0 := foreign_key t),
      next_ref = 2, calls = []\<rparr>"

text \<open>
  Operation objects 0, 1 and 2 add \<^verbatim>\<open>rating\<close> with the field objects 1, 2 and 3, and the
  operation objects 5, 6 and 8 alter \<^verbatim>\<open>rating\<close> to them; the operation objects 9 and 10
  add \<^verbatim>\<open>rating\<close> with the field objects 4 and 5; every other operation object is a
  \<^verbatim>\<open>RemoveField("Pony", "rating")\<close>. Field 2 differs from field 1 in its own name only,
  field 3 in its default only (6 for 5); fields 4 and 5 differ in their default only
  (\<^verbatim>\<open>1\<close> and \<^verbatim>\<open>True\<close>).
\<close>

definition rating_ops :: "op_ref \<Rightarrow> operation" where
  "rating_ops =
     (\<lambda>r. RemoveField ''Pony'' ''rating'')
       (0 := AddField ''Pony'' ''rating'' 1 False,
        1 := AddField ''PONY'' ''rating'' 2 True,
        2 := AddField ''Pony'' ''rating'' 3 False,
        5 := AlterField ''Pony'' ''rating'' 1,
        6 := AlterField ''PONY'' ''rating'' 2,
        8 := AlterField ''Pony'' ''rating'' 3,
        9 := AddField ''Pony'' ''rating'' 4 False,
        10 := AddField ''Pony'' ''rating'' 5 False)"

definition rating_heap :: "ref \<Rightarrow> field_obj" where
  "rating_heap =
     (\<lambda>r. auto_field)
       (1 := integer_field (Provided (PyInt 5)),
        2 := (integer_field (Provided (PyInt 5)))\<lparr>field_name := Some ''rating''\<rparr>,
        3 := integer_field (Provided (PyInt 6)),
        4 := integer_field (Provided (PyInt 1)),
        5 := integer_field (Provided (PyBool True)))"

section \<open>Properties\<close>

subsection \<open>Auxiliary facts\<close>

lemma lower_Pony: "lower ''Pony'' = ''pony''"
  by code_simp

lemma lower_PONY: "lower ''PONY'' = ''pony''"
  by code_simp

lemma remove_loop_filter: "remove_loop n xs acc = acc @ filter (\<lambda>p. fst p \<noteq> n) xs"
  by (induction xs arbitrary: acc) auto

lemma filter_absent: "n \<notin> fst ` set xs \<Longrightarrow> filter (\<lambda>p. fst p \<noteq> n) xs = xs"
  by (induction xs) auto

lemma alter_absent:
  "n \<notin> fst ` set xs \<Longrightarrow> map (\<lambda>(k, g). (k, if k = n then f else g)) xs = xs"
  by (induction xs) auto

lemma rename_absent:
  "n \<notin> fst ` set xs \<Longrightarrow> map (\<lambda>(k, g). (if k = n then new else k, g)) xs = xs"
  by (induction xs) auto

lemma alter_twice:
  "map ((\<lambda>(k, g). (k, if k = n then f else g)) \<circ> (\<lambda>(k, g). (k, if k = n then f else g))) xs
   = map (\<lambda>(k, g). (k, if k = n then f else g)) xs"
  by (induction xs) auto

lemma rename_twice:
  "map ((\<lambda>(k, g). (if k = old then new else k, g)) \<circ>
        (\<lambda>(k, g). (if k = old then new else k, g))) xs
   = map (\<lambda>(k, g). (if k = old then new else k, g)) xs"
  by (induction xs) auto

lemma rename_back_iff:
  "map ((\<lambda>(k, g). (if k = new then old else k, g)) \<circ>
        (\<lambda>(k, g). (if k = old then new else k, g))) xs = xs
   \<longleftrightarrow> new = old \<or> new \<notin> fst ` set xs"
  by (induction xs) auto

lemma same_model_state:
  "models state key = Some ms \<Longrightarrow> state\<lparr>models := (models state)(key \<mapsto> ms)\<rparr> = state"
  by (simp add: map_upd_triv)

lemma py_eq_refl: "py_eq v v"
  by (cases v) simp_all

lemma args_eq_refl: "list_all2 py_eq xs xs"
  by (simp add: list_all2_same py_eq_refl)

lemma no_default_key: "map_of (filter (\<lambda>(k, v). k \<noteq> ''default'') xs) ''default'' = None"
  by (induction xs) auto

lemma dict_eq_refl: "dict_eq d d"
  by (simp add: dict_eq_def list_all_iff option.rel_refl py_eq_refl)

lemma form_eq_refl: "form_eq x x"
  by (cases x) (simp add: args_eq_refl dict_eq_refl)

lemma dict_eq_same_key:
  "dict_eq ((k, u) # xs) ((k, v) # xs) \<longleftrightarrow> py_eq u v"
  by (auto simp: dict_eq_def list_all_iff option.rel_refl py_eq_refl)

lemma dict_eq_extra_key:
  assumes "map_of xs k = None"
  shows "\<not> dict_eq ((k, u) # xs) xs" and "\<not> dict_eq xs ((k, u) # xs)"
  using assms by (simp_all add: dict_eq_def)

lemma form_eq_default:
  "form_eq (snd (deconstruct g)) (snd (deconstruct (g\<lparr>default := d\<rparr>)))
   \<longleftrightarrow> default_eq (default g) d"
  by (cases "default g"; cases d)
     (simp_all add: deconstruct_def args_eq_refl dict_eq_refl dict_eq_same_key
        dict_eq_extra_key no_default_key)

text \<open>The scenario of the spec, evaluated: the state and the world after the addition.\<close>

lemma pony_add_rating:
  "state_forwards (AddField ''Pony'' ''rating'' 1 False) ''app'' pony_state pony_world
     = Inr (pony_state_rating, pony_world_rating)"
  apply (simp add: state_forwards_def AddField_state_forwards_def clone_def set_default_def
      pony_state_def lower_Pony)
  apply (simp add: pony_world_def pony_state_rating_def pony_world_rating_def integer_field_def)
  done

lemma plain_render_pony:
  "render_get_model (plain_collaborators allowed) pony_state ''app'' ''Pony''
     = Inr (pony_class [(''id'', 0)])"
  "render_get_model (plain_collaborators allowed) pony_state_rating ''app'' ''Pony''
     = Inr (pony_class [(''id'', 0), (''rating'', 2)])"
  "render_get_model (plain_collaborators allowed) (rider_state r) ''app'' ''Pony''
     = Inr (pony_class [(''rider'', r)])"
  by (simp_all add: plain_collaborators_def pony_state_def pony_state_rating_def rider_state_def
      lower_Pony pony_class_def)

lemma plain_allow_migrate:
  "allow_migrate (plain_collaborators allowed) alias model = allowed"
  by (simp add: plain_collaborators_def)

lemma plain_backend: "backend plain_editor c h = Inr h"
  by (simp add: plain_editor_def)

subsection \<open>State computation\<close>

text \<open>
  Claim C1. An \<^verbatim>\<open>AddField\<close> with \<^verbatim>\<open>preserve_default=False\<close>, applied to a state that has
  the target model, appends the pair of its name and a new object to the model's field
  list. The new object is the operation's field with the default replaced by
  \<^verbatim>\<open>NOT_PROVIDED\<close>; it is not the operation's own field object, which is left as it was.
\<close>

theorem AddField_state_forwards_stores_clone:
  assumes "models state (app_label, lower m) = Some ms"
      and "f < next_ref w"
  shows "\<exists>state' w' ms'.
           state_forwards (AddField m n f False) app_label state w = Inr (state', w') \<and>
           models state' (app_label, lower m) = Some ms' \<and>
           fields' ms' = fields' ms @ [(n, next_ref w)] \<and>
           heap w' (next_ref w) = (heap w f)\<lparr>default := NOT_PROVIDED\<rparr> \<and>
           next_ref w \<noteq> f \<and>
           heap w' f = heap w f"
  using assms
  by (simp add: state_forwards_def AddField_state_forwards_def clone_def set_default_def)

text \<open>
  The scenario of the spec: \<^verbatim>\<open>AddField("Pony", "rating", IntegerField(default=5),
  preserve_default=False)\<close> on a \<^verbatim>\<open>Pony\<close> with the field \<^verbatim>\<open>id\<close>.
\<close>

theorem AddField_state_forwards_stores_clone_witness:
  "models pony_state (''app'', lower ''Pony'') = Some \<lparr>fields' = [(''id'', 0)]\<rparr> \<and>
   1 < next_ref pony_world \<and>
   (\<exists>state' w' ms'.
       state_forwards (AddField ''Pony'' ''rating'' 1 False) ''app'' pony_state pony_world
         = Inr (state', w') \<and>
       models state' (''app'', ''pony'') = Some ms' \<and>
       fields' ms' = [(''id'', 0), (''rating'', 2)] \<and>
       heap w' 2 = integer_field NOT_PROVIDED \<and>
       heap w' 1 = integer_field (Provided (PyInt 5)))"
  using AddField_state_forwards_stores_clone
    [where state = pony_state and app_label = "''app''" and m = "''Pony''"
       and ms = "\<lparr>fields' = [(''id'', 0)]\<rparr>" and f = 1 and w = pony_world and n = "''rating''"]
  by (simp add: pony_state_def pony_world_def lower_Pony integer_field_def)

text \<open>
  Claim C10. When the model's field list has no pair with the operation's field name (the
  old name, for a rename), \<^verbatim>\<open>state_forwards\<close> of \<^verbatim>\<open>RemoveField\<close>, \<^verbatim>\<open>AlterField\<close> and
  \<^verbatim>\<open>RenameField\<close> returns without error and leaves the state, and with it the field list
  and its order, as it was. Names are compared as they are written.
\<close>

theorem state_forwards_missing_field_noop:
  assumes "models state (app_label, lower m) = Some ms"
      and "n \<notin> fst ` set (fields' ms)"
  shows "state_forwards (RemoveField m n) app_label state w = Inr (state, w) \<and>
         state_forwards (AlterField m n f) app_label state w = Inr (state, w) \<and>
         state_forwards (RenameField m n new) app_label state w = Inr (state, w)"
  using assms
  by (simp add: state_forwards_def RemoveField_state_forwards_def AlterField_state_forwards_def
      RenameField_state_forwards_def remove_loop_filter filter_absent alter_absent rename_absent
      same_model_state)

text \<open>A \<^verbatim>\<open>Pony\<close> whose only field is \<^verbatim>\<open>id\<close> has no field \<^verbatim>\<open>rating\<close>.\<close>

theorem state_forwards_missing_field_noop_witness:
  "models pony_state (''app'', lower ''Pony'') = Some \<lparr>fields' = [(''id'', 0)]\<rparr> \<and>
   ''rating'' \<notin> fst ` set (fields' \<lparr>fields' = [(''id'', 0)]\<rparr>) \<and>
   state_forwards (RemoveField ''Pony'' ''rating'') ''app'' pony_state pony_world
     = Inr (pony_state, pony_world) \<and>
   state_forwards (AlterField ''Pony'' ''rating'' 1) ''app'' pony_state pony_world
     = Inr (pony_state, pony_world) \<and>
   state_forwards (RenameField ''Pony'' ''rating'' ''score'') ''app'' pony_state pony_world
     = Inr (pony_state, pony_world)"
  using state_forwards_missing_field_noop
    [where state = pony_state and app_label = "''app''" and m = "''Pony''"
       and ms = "\<lparr>fields' = [(''id'', 0)]\<rparr>" and n = "''rating''" and w = pony_world
       and f = 1 and new = "''score''"]
  by (simp add: pony_state_def lower_Pony)

text \<open>
  Claim C3, as stated, fails for renames: in a model that already has a field with the new
  name, renaming there and back gives both fields the old name.
\<close>

theorem RenameField_there_and_back_counterexample:
  "fields_after
     (apply_operations
        [RenameField ''Pony'' ''name'' ''nickname'', RenameField ''Pony'' ''nickname'' ''name'']
        ''app'' names_state pony_world) (''app'', ''pony'')
     = Some [(''name'', 0), (''name'', 1)] \<and>
   fields_after (Inr (names_state, pony_world)) (''app'', ''pony'')
     = Some [(''name'', 0), (''nickname'', 1)]"
  by (simp add: fields_after_def state_forwards_def RenameField_state_forwards_def
      names_state_def lower_Pony)

text \<open>
  Claim C3, amended. In a state that has the model: adding a field whose name the model does
  not have and then removing it gives back the model's field list, order included; and
  renaming a field from \<open>old\<close> to \<open>new\<close> and then from \<open>new\<close> to \<open>old\<close> gives back the field
  list exactly when the model has no field named \<open>new\<close> beforehand, or \<open>new\<close> is \<open>old\<close>.
\<close>

theorem state_forwards_inverse:
  assumes "models state (app_label, lower m) = Some ms"
  shows "(n \<notin> fst ` set (fields' ms) \<longrightarrow>
            fields_after
              (apply_operations [AddField m n f pd, RemoveField m n] app_label state w)
              (app_label, lower m) = Some (fields' ms)) \<and>
         (\<exists>fs. fields_after
                  (apply_operations [RenameField m old new, RenameField m new old]
                     app_label state w)
                  (app_label, lower m) = Some fs \<and>
               (fs = fields' ms \<longleftrightarrow> new = old \<or> new \<notin> fst ` set (fields' ms)))"
  using assms
  by (simp add: fields_after_def state_forwards_def AddField_state_forwards_def
      RemoveField_state_forwards_def RenameField_state_forwards_def remove_loop_filter
      filter_absent rename_back_iff clone_def set_default_def
      split: prod.splits cong: if_cong)

text \<open>Adding and removing \<^verbatim>\<open>rating\<close>, and renaming \<^verbatim>\<open>id\<close> to \<^verbatim>\<open>ident\<close> and back.\<close>

theorem state_forwards_inverse_witness:
  "models pony_state (''app'', lower ''Pony'') = Some \<lparr>fields' = [(''id'', 0)]\<rparr> \<and>
   ''rating'' \<notin> fst ` set [(''id'', 0 :: nat)] \<and>
   fields_after
     (apply_operations [AddField ''Pony'' ''rating'' 1 False, RemoveField ''Pony'' ''rating'']
        ''app'' pony_state pony_world) (''app'', ''pony'') = Some [(''id'', 0)] \<and>
   fields_after
     (apply_operations [RenameField ''Pony'' ''id'' ''ident'', RenameField ''Pony'' ''ident'' ''id'']
        ''app'' pony_state pony_world) (''app'', ''pony'') = Some [(''id'', 0)]"
  using state_forwards_inverse
    [where state = pony_state and app_label = "''app''" and m = "''Pony''"
       and ms = "\<lparr>fields' = [(''id'', 0)]\<rparr>" and n = "''rating''" and f = 1 and pd = False
       and w = pony_world and old = "''id''" and new = "''ident''"]
  by (auto simp: pony_state_def lower_Pony)

text \<open>
  Claim C4, as stated, fails for \<^verbatim>\<open>AddField\<close>: each application appends the pair again.
\<close>

theorem AddField_twice_counterexample:
  "fields_after
     (apply_operations [AddField ''Pony'' ''rating'' 1 True, AddField ''Pony'' ''rating'' 1 True]
        ''app'' pony_state pony_world) (''app'', ''pony'')
     = Some [(''id'', 0), (''rating'', 1), (''rating'', 1)] \<and>
   fields_after
     (apply_operations [AddField ''Pony'' ''rating'' 1 True] ''app'' pony_state pony_world)
     (''app'', ''pony'')
     = Some [(''id'', 0), (''rating'', 1)]"
  by (simp add: fields_after_def state_forwards_def AddField_state_forwards_def pony_state_def
      lower_Pony)

text \<open>
  Claim C4, amended. For \<^verbatim>\<open>RemoveField\<close>, \<^verbatim>\<open>AlterField\<close> and \<^verbatim>\<open>RenameField\<close>,
  \<^verbatim>\<open>state_forwards\<close> is idempotent: applied twice it gives the result of applying it once,
  for the whole state and so for the field list of the target model.
\<close>

theorem state_forwards_idempotent:
  assumes "class_of self \<noteq> AddField_class"
  shows "apply_operations [self, self] app_label state w
           = apply_operations [self] app_label state w"
  using assms
  by (cases self)
     (auto simp: state_forwards_def RemoveField_state_forwards_def AlterField_state_forwards_def
        RenameField_state_forwards_def remove_loop_filter alter_twice rename_twice
        split: option.splits cong: if_cong)

text \<open>One operation of each of the three classes, on the \<^verbatim>\<open>Pony\<close> with two fields.\<close>

theorem state_forwards_idempotent_witness:
  "class_of (RemoveField ''Pony'' ''name'') \<noteq> AddField_class \<and>
   class_of (AlterField ''Pony'' ''name'' 1) \<noteq> AddField_class \<and>
   class_of (RenameField ''Pony'' ''name'' ''title'') \<noteq> AddField_class \<and>
   apply_operations [RemoveField ''Pony'' ''name'', RemoveField ''Pony'' ''name'']
       ''app'' names_state pony_world
     = apply_operations [RemoveField ''Pony'' ''name''] ''app'' names_state pony_world \<and>
   apply_operations [AlterField ''Pony'' ''name'' 1, AlterField ''Pony'' ''name'' 1]
       ''app'' names_state pony_world
     = apply_operations [AlterField ''Pony'' ''name'' 1] ''app'' names_state pony_world \<and>
   apply_operations [RenameField ''Pony'' ''name'' ''title'', RenameField ''Pony'' ''name'' ''title'']
       ''app'' names_state pony_world
     = apply_operations [RenameField ''Pony'' ''name'' ''title''] ''app'' names_state pony_world"
  using state_forwards_idempotent [where self = "RemoveField ''Pony'' ''name''"]
    state_forwards_idempotent [where self = "AlterField ''Pony'' ''name'' 1"]
    state_forwards_idempotent [where self = "RenameField ''Pony'' ''name'' ''title''"]
  by simp

subsection \<open>Database application\<close>

text \<open>
  Claim C2, as stated, fails for the field passed into the operation. The state holds a
  clone, the rendered model has the clone, and \<^verbatim>\<open>database_forwards\<close> assigns to the clone
  only: after a run that completes, the operation's own field (object 1) still has the
  default 5.
\<close>

theorem AddField_database_forwards_operation_field_counterexample:
  "state_forwards (AddField ''Pony'' ''rating'' 1 False) ''app'' pony_state pony_world
     = Inr (pony_state_rating, pony_world_rating) \<and>
   default_after
     (database_forwards (plain_collaborators True) (AddField ''Pony'' ''rating'' 1 False)
        ''app'' plain_editor pony_state pony_state_rating pony_world_rating) 1
     = Some (Provided (PyInt 5))"
proof (rule conjI)
  show "state_forwards (AddField ''Pony'' ''rating'' 1 False) ''app'' pony_state pony_world
     = Inr (pony_state_rating, pony_world_rating)"
    by (rule pony_add_rating)
  show "default_after
     (database_forwards (plain_collaborators True) (AddField ''Pony'' ''rating'' 1 False)
        ''app'' plain_editor pony_state pony_state_rating pony_world_rating) 1
     = Some (Provided (PyInt 5))"
    apply (simp add: default_after_def database_forwards_def AddField_database_forwards_def
        add_field_def invoke_def set_default_def plain_collaborators_def plain_editor_def
        pony_state_def pony_state_rating_def lower_Pony)
    apply (simp add: pony_world_rating_def integer_field_def)
    done
qed

text \<open>
  Claim C2, amended. For an \<^verbatim>\<open>AddField\<close> with \<^verbatim>\<open>preserve_default=False\<close>, a router that
  permits the migration and a run of \<^verbatim>\<open>database_forwards\<close> that completes: afterwards the
  default of the field object looked up on the rendered "to" model, the object handed to
  the backend, is \<^verbatim>\<open>NOT_PROVIDED\<close>; and the one call made to the backend is \<^verbatim>\<open>add_field\<close>
  with that object carrying the default of the operation's field.
\<close>

theorem AddField_database_forwards_restores_default:
  assumes "render_get_model C from_state app_label m = Inr from_model"
      and "render_get_model C to_state app_label m = Inr to_model"
      and "allow_migrate C (connection_alias schema_editor) to_model"
      and "get_new_field C to_model n True = Inr fld"
      and "database_forwards C (AddField m n f False) app_label schema_editor from_state to_state w
             = Inr w'"
  shows "default (heap w' fld) = NOT_PROVIDED \<and>
         calls w' =
           calls w @ [Add_field from_model fld ((heap w fld)\<lparr>default := default (heap w f)\<rparr>)]"
  using assms
  by (auto simp: database_forwards_def AddField_database_forwards_def add_field_def invoke_def
      set_default_def Let_def split: sum.splits)

text \<open>
  The scenario after its \<^verbatim>\<open>state_forwards\<close>: the rendered field is the clone, object 2.
\<close>

theorem AddField_database_forwards_restores_default_witness:
  "\<exists>w'. database_forwards (plain_collaborators True) (AddField ''Pony'' ''rating'' 1 False)
          ''app'' plain_editor pony_state pony_state_rating pony_world_rating = Inr w' \<and>
        default (heap w' 2) = NOT_PROVIDED \<and>
        calls w' = [Add_field (pony_class [(''id'', 0)]) 2 (integer_field (Provided (PyInt 5)))]"
proof -
  have fld: "get_new_field (plain_collaborators True) (pony_class [(''id'', 0), (''rating'', 2)])
      ''rating'' True = Inr 2"
    by (simp add: plain_collaborators_def pony_class_def)
  have allowed: "allow_migrate (plain_collaborators True) (connection_alias plain_editor)
      (pony_class [(''id'', 0), (''rating'', 2)])"
    by (simp add: plain_allow_migrate)
  obtain w' where run: "database_forwards (plain_collaborators True)
      (AddField ''Pony'' ''rating'' 1 False) ''app'' plain_editor pony_state pony_state_rating
      pony_world_rating = Inr w'"
    by (simp add: database_forwards_def AddField_database_forwards_def plain_render_pony
        allowed fld add_field_def invoke_def plain_backend Let_def)
  from AddField_database_forwards_restores_default
    [OF plain_render_pony(1) plain_render_pony(2) allowed fld run] run
  show ?thesis
    by (simp add: pony_world_rating_def integer_field_def)
qed

text \<open>
  Claim C5. \<^verbatim>\<open>AlterField.database_backwards\<close> is \<^verbatim>\<open>database_forwards\<close> entered again with
  the arguments it was given, in the order it was given them: the method swaps nothing,
  the reversal of "from" and "to" is the caller's.
\<close>

theorem AlterField_database_backwards_is_forwards:
  "database_backwards C (AlterField m n f) app_label schema_editor from_state to_state w =
   database_forwards C (AlterField m n f) app_label schema_editor from_state to_state w"
  by (simp add: database_backwards_def database_forwards_def AlterField_database_backwards_def)

text \<open>
  The method itself exchanges nothing: on the two states of the rider scenario, going
  backwards from the first to the second is not going forwards from the second to the
  first.
\<close>

lemma AlterField_database_backwards_exchanges_nothing:
  "calls_after
     (database_backwards (plain_collaborators True) (AlterField ''Pony'' ''rider'' 1) ''app''
        plain_editor (rider_state 0) (rider_state 1) (rider_world (Unresolved ''Rider'')))
   = Some [Alter_field (pony_class [(''rider'', 0)])
             0 (foreign_key (Resolved rider_class))
             1 (foreign_key (Resolved rider_class))] \<and>
   calls_after
     (database_forwards (plain_collaborators True) (AlterField ''Pony'' ''rider'' 1) ''app''
        plain_editor (rider_state 1) (rider_state 0) (rider_world (Unresolved ''Rider'')))
   = Some [Alter_field (pony_class [(''rider'', 1)])
             1 (foreign_key (Resolved rider_class))
             0 (foreign_key (Resolved rider_class))]"
  by (simp add: calls_after_def database_backwards_def AlterField_database_backwards_def
      database_forwards_def AlterField_database_forwards_def
      patch_rel_to_def alter_field_def invoke_def plain_collaborators_def plain_editor_def
      rider_state_def rider_world_def lower_Pony foreign_key_def pony_class_def)

text \<open>
  Claim C8. When the router returns false for the rendered target model, every
  \<^verbatim>\<open>database_forwards\<close> and \<^verbatim>\<open>database_backwards\<close> returns without error and leaves the
  world as it was: no call is added to the trace of the backend.
\<close>

theorem router_denied_is_noop:
  assumes "render_get_model C from_state app_label (model_name self) = Inr from_model"
      and "render_get_model C to_state app_label (model_name self) = Inr to_model"
      and "\<not> allow_migrate C (connection_alias schema_editor) from_model"
      and "\<not> allow_migrate C (connection_alias schema_editor) to_model"
  shows "database_forwards C self app_label schema_editor from_state to_state w = Inr w \<and>
         database_backwards C self app_label schema_editor from_state to_state w = Inr w"
  using assms
  by (cases self)
     (simp_all add: database_forwards_def database_backwards_def
        AddField_database_forwards_def AddField_database_backwards_def
        RemoveField_database_forwards_def RemoveField_database_backwards_def
        AlterField_database_forwards_def AlterField_database_backwards_def
        RenameField_database_forwards_def RenameField_database_backwards_def)

text \<open>
  The scenario of the spec: \<^verbatim>\<open>RemoveField("Pony", "rating")\<close> with a router that returns
  false.
\<close>

theorem router_denied_is_noop_witness:
  "database_forwards (plain_collaborators False) (RemoveField ''Pony'' ''rating'') ''app''
      plain_editor pony_state_rating pony_state pony_world_rating = Inr pony_world_rating \<and>
   database_backwards (plain_collaborators False) (RemoveField ''Pony'' ''rating'') ''app''
      plain_editor pony_state_rating pony_state pony_world_rating = Inr pony_world_rating \<and>
   calls pony_world_rating = []"
proof -
  have from_model: "render_get_model (plain_collaborators False) pony_state_rating ''app''
      (model_name (RemoveField ''Pony'' ''rating'')) = Inr (pony_class [(''id'', 0), (''rating'', 2)])"
    by (simp add: plain_render_pony)
  have to_model: "render_get_model (plain_collaborators False) pony_state ''app''
      (model_name (RemoveField ''Pony'' ''rating'')) = Inr (pony_class [(''id'', 0)])"
    by (simp add: plain_render_pony)
  have denied:
    "\<not> allow_migrate (plain_collaborators False) (connection_alias plain_editor) model" for model
    by (simp add: plain_allow_migrate)
  from router_denied_is_noop [OF from_model to_model denied denied] show ?thesis
    by (simp add: pony_world_rating_def)
qed

text \<open>
  Claim C9. In \<^verbatim>\<open>AlterField.database_forwards\<close> with a router that permits the migration:
  when the "from" field's relation target is an unresolved reference, a string that names
  a model and so is not empty, and the "to" field's target is a model class, or the "from"
  field's target is a model class and the "to" field's target is a string, the backend's
  \<^verbatim>\<open>alter_field\<close> is called in a world where the targets of both fields are that model
  class.
\<close>

theorem AlterField_database_forwards_patches_target:
  assumes "render_get_model C from_state app_label m = Inr from_model"
      and "render_get_model C to_state app_label m = Inr to_model"
      and "allow_migrate C (connection_alias schema_editor) to_model"
      and "get_new_field C from_model n True = Inr from_field"
      and "get_new_field C to_model n True = Inr to_field"
      and "rel (heap w from_field) = Some from_rel"
      and "rel (heap w to_field) = Some to_rel"
      and "(to from_rel = Unresolved s \<and> s \<noteq> [] \<and> to to_rel = Resolved M) \<or>
           (to from_rel = Resolved M \<and> to to_rel = Unresolved s)"
  shows "\<exists>w1. database_forwards C (AlterField m n f) app_label schema_editor from_state to_state w
                = alter_field schema_editor from_model from_field to_field w1 \<and>
              map_option to (rel (heap w1 from_field)) = Some (Resolved M) \<and>
              map_option to (rel (heap w1 to_field)) = Some (Resolved M)"
  using assms
  by (auto simp: database_forwards_def AlterField_database_forwards_def patch_rel_to_def)

text \<open>
  The scenario of the spec: the "from" field still has the string \<^verbatim>\<open>"Rider"\<close>, the "to"
  field the class.
\<close>

theorem AlterField_database_forwards_patches_target_witness:
  "\<exists>w1. database_forwards (plain_collaborators True) (AlterField ''Pony'' ''rider'' 1) ''app''
           plain_editor (rider_state 0) (rider_state 1) (rider_world (Unresolved ''Rider''))
         = alter_field plain_editor (pony_class [(''rider'', 0)]) 0 1 w1 \<and>
        map_option to (rel (heap w1 0)) = Some (Resolved rider_class) \<and>
        map_option to (rel (heap w1 1)) = Some (Resolved rider_class)"
proof -
  have allowed: "allow_migrate (plain_collaborators True) (connection_alias plain_editor)
      (pony_class [(''rider'', 1)])"
    by (simp add: plain_allow_migrate)
  have from_field: "get_new_field (plain_collaborators True) (pony_class [(''rider'', 0)])
      ''rider'' True = Inr 0"
    by (simp add: plain_collaborators_def pony_class_def)
  have to_field: "get_new_field (plain_collaborators True) (pony_class [(''rider'', 1)])
      ''rider'' True = Inr 1"
    by (simp add: plain_collaborators_def pony_class_def)
  have from_rel: "rel (heap (rider_world (Unresolved ''Rider'')) 0)
      = Some \<lparr>to = Unresolved ''Rider''\<rparr>"
    by (simp add: rider_world_def foreign_key_def)
  have to_rel: "rel (heap (rider_world (Unresolved ''Rider'')) 1)
      = Some \<lparr>to = Resolved rider_class\<rparr>"
    by (simp add: rider_world_def foreign_key_def)
  have targets:
    "(to \<lparr>to = Unresolved ''Rider''\<rparr> = Unresolved ''Rider'' \<and> ''Rider'' \<noteq> [] \<and>
        to \<lparr>to = Resolved rider_class\<rparr> = Resolved rider_class) \<or>
     (to \<lparr>to = Unresolved ''Rider''\<rparr> = Resolved rider_class \<and>
        to \<lparr>to = Resolved rider_class\<rparr> = Unresolved ''Rider'')"
    by simp
  show ?thesis
    by (rule AlterField_database_forwards_patches_target
        [OF plain_render_pony(3) plain_render_pony(3) allowed from_field to_field
            from_rel to_rel targets])
qed

text \<open>
  The empty string names no model. In the place of the "from" target it is false in
  Python, so the test of \<^verbatim>\<open>from_field.rel.to\<close> passes over the patch; in the place of
  the "to" target it is patched like any other string.
\<close>

lemma AlterField_empty_string_target:
  "calls_after
     (database_forwards (plain_collaborators True) (AlterField ''Pony'' ''rider'' 1) ''app''
        plain_editor (rider_state 0) (rider_state 1) (rider_world (Unresolved [])))
   = Some [Alter_field (pony_class [(''rider'', 0)])
             0 (foreign_key (Unresolved []))
             1 (foreign_key (Resolved rider_class))] \<and>
   calls_after
     (database_forwards (plain_collaborators True) (AlterField ''Pony'' ''rider'' 1) ''app''
        plain_editor (rider_state 1) (rider_state 0) (rider_world (Unresolved [])))
   = Some [Alter_field (pony_class [(''rider'', 1)])
             1 (foreign_key (Resolved rider_class))
             0 (foreign_key (Resolved rider_class))]"
  by (simp add: calls_after_def database_forwards_def AlterField_database_forwards_def
      patch_rel_to_def alter_field_def invoke_def plain_collaborators_def plain_editor_def
      rider_state_def rider_world_def lower_Pony foreign_key_def pony_class_def)

subsection \<open>Equality\<close>

text \<open>
  Claim C6, as stated, fails in its last part: the canonical forms are compared with
  Python's \<^verbatim>\<open>==\<close>, under which \<^verbatim>\<open>1 == True\<close>. Two \<^verbatim>\<open>AddField\<close> operations whose fields
  differ in their default only, \<^verbatim>\<open>1\<close> for the one and \<^verbatim>\<open>True\<close> for the other, are equal.
\<close>

theorem operation_equality_default_counterexample:
  "rating_ops 9 = AddField ''Pony'' ''rating'' 4 False \<and>
   rating_ops 10 = AddField ''Pony'' ''rating'' 5 False \<and>
   rating_heap 5 = (rating_heap 4)\<lparr>default := Provided (PyBool True)\<rparr> \<and>
   default (rating_heap 4) = Provided (PyInt 1) \<and>
   Provided (PyBool True) \<noteq> Provided (PyInt 1) \<and>
   op_eq rating_ops rating_heap 9 10"
  by (simp add: rating_ops_def rating_heap_def integer_field_def op_eq_def AddField_eq_def
      deconstruct_def dict_eq_def)

text \<open>
  Claim C6, amended. Every operation equals itself. Two \<^verbatim>\<open>AddField\<close> operations, or two
  \<^verbatim>\<open>AlterField\<close> operations, with the same field name and model names that agree after
  \<^verbatim>\<open>lower()\<close> are equal exactly when the canonical forms of their fields, without the first
  element, are equal by Python's \<^verbatim>\<open>==\<close>, as forms that are the same are. When the
  second field is the first with another default, the two operations are equal exactly when
  the two defaults are equal by \<^verbatim>\<open>==\<close>; so they are not equal unless the defaults are, as
  \<^verbatim>\<open>1\<close> and \<^verbatim>\<open>True\<close> are.
\<close>

theorem operation_equality:
  assumes "(ops a = AddField m1 n f1 p1 \<and> ops b = AddField m2 n f2 p2) \<or>
           (ops a = AlterField m1 n f1 \<and> ops b = AlterField m2 n f2)"
      and "lower m1 = lower m2"
  shows "op_eq ops h c c \<and>
         (op_eq ops h a b \<longleftrightarrow>
            form_eq (snd (deconstruct (h f1))) (snd (deconstruct (h f2)))) \<and>
         (snd (deconstruct (h f1)) = snd (deconstruct (h f2)) \<longrightarrow> op_eq ops h a b) \<and>
         (h f2 = (h f1)\<lparr>default := d\<rparr> \<longrightarrow>
            (op_eq ops h a b \<longleftrightarrow> default_eq (default (h f1)) d))"
proof -
  have itself: "op_eq ops h c c"
    by (cases "ops c")
       (simp_all add: op_eq_def AddField_eq_def AlterField_eq_def Operation_eq_def form_eq_refl)
  from assms have forms:
    "op_eq ops h a b \<longleftrightarrow> form_eq (snd (deconstruct (h f1))) (snd (deconstruct (h f2)))"
    by (auto simp: op_eq_def AddField_eq_def AlterField_eq_def)
  from forms form_eq_refl [of "snd (deconstruct (h f1))"]
  have equal_forms: "snd (deconstruct (h f1)) = snd (deconstruct (h f2)) \<longrightarrow> op_eq ops h a b"
    by auto
  from forms form_eq_default [where g = "h f1" and d = d]
  have defaults: "h f2 = (h f1)\<lparr>default := d\<rparr> \<longrightarrow>
      (op_eq ops h a b \<longleftrightarrow> default_eq (default (h f1)) d)"
    by auto
  from itself forms equal_forms defaults show ?thesis
    by blast
qed

text \<open>
  \<^verbatim>\<open>AddField("Pony", "rating", ...)\<close> and \<^verbatim>\<open>AddField("PONY", "rating", ...)\<close> with equal
  canonical forms are equal, and with the defaults 5 and 6 they are not; the same for
  \<^verbatim>\<open>AlterField\<close>.
\<close>

theorem operation_equality_witness:
  "op_eq rating_ops rating_heap 7 7 \<and> op_eq rating_ops rating_heap 0 0 \<and>
   op_eq rating_ops rating_heap 5 5 \<and>
   op_eq rating_ops rating_heap 0 1 \<and> \<not> op_eq rating_ops rating_heap 0 2 \<and>
   op_eq rating_ops rating_heap 5 6 \<and> \<not> op_eq rating_ops rating_heap 5 8"
proof -
  have add1: "(rating_ops 0 = AddField ''Pony'' ''rating'' 1 False \<and>
        rating_ops 1 = AddField ''PONY'' ''rating'' 2 True) \<or>
      (rating_ops 0 = AlterField ''Pony'' ''rating'' 1 \<and>
        rating_ops 1 = AlterField ''PONY'' ''rating'' 2)"
    by (simp add: rating_ops_def)
  have add2: "(rating_ops 0 = AddField ''Pony'' ''rating'' 1 False \<and>
        rating_ops 2 = AddField ''Pony'' ''rating'' 3 False) \<or>
      (rating_ops 0 = AlterField ''Pony'' ''rating'' 1 \<and>
        rating_ops 2 = AlterField ''Pony'' ''rating'' 3)"
    by (simp add: rating_ops_def)
  have alter1: "(rating_ops 5 = AddField ''Pony'' ''rating'' 1 False \<and>
        rating_ops 6 = AddField ''PONY'' ''rating'' 2 True) \<or>
      (rating_ops 5 = AlterField ''Pony'' ''rating'' 1 \<and>
        rating_ops 6 = AlterField ''PONY'' ''rating'' 2)"
    by (simp add: rating_ops_def)
  have alter2: "(rating_ops 5 = AddField ''Pony'' ''rating'' 1 False \<and>
        rating_ops 8 = AddField ''Pony'' ''rating'' 3 False) \<or>
      (rating_ops 5 = AlterField ''Pony'' ''rating'' 1 \<and>
        rating_ops 8 = AlterField ''Pony'' ''rating'' 3)"
    by (simp add: rating_ops_def)
  have names: "lower ''Pony'' = lower ''PONY''"
    by (simp add: lower_Pony lower_PONY)
  have same_form: "snd (deconstruct (rating_heap 1)) = snd (deconstruct (rating_heap 2))"
    by (simp add: rating_heap_def deconstruct_def integer_field_def)
  have other_default: "rating_heap 3 = (rating_heap 1)\<lparr>default := Provided (PyInt 6)\<rparr>"
    by (simp add: rating_heap_def integer_field_def)
  have defaults: "\<not> default_eq (default (rating_heap 1)) (Provided (PyInt 6))"
    by (simp add: rating_heap_def integer_field_def)
  from operation_equality [where ops = rating_ops and h = rating_heap and c = 7, OF add1 names]
    operation_equality [where ops = rating_ops and h = rating_heap and c = 0
      and d = "Provided (PyInt 6)", OF add2 refl]
    operation_equality [where ops = rating_ops and h = rating_heap and c = 5, OF alter1 names]
    operation_equality [where ops = rating_ops and h = rating_heap and c = 5
      and d = "Provided (PyInt 6)", OF alter2 refl]
    same_form other_default defaults
  show ?thesis by blast
qed

text \<open>
  Claim C7. \<^verbatim>\<open>RemoveField\<close> defines no equality of its own: a \<^verbatim>\<open>RemoveField\<close> object is
  equal to an object exactly when that is the same object, so two distinct instances with
  the same model name and field name are not equal.
\<close>

theorem RemoveField_equality_is_identity:
  assumes "ops a = RemoveField m n"
  shows "(op_eq ops h a b \<longleftrightarrow> a = b) \<and>
         (ops b = RemoveField m n \<and> a \<noteq> b \<longrightarrow> \<not> op_eq ops h a b)"
  using assms by (simp add: op_eq_def Operation_eq_def)

text \<open>Operation objects 3 and 4 are both \<^verbatim>\<open>RemoveField("Pony", "rating")\<close>.\<close>

theorem RemoveField_equality_is_identity_witness:
  "rating_ops 3 = RemoveField ''Pony'' ''rating'' \<and>
   rating_ops 4 = RemoveField ''Pony'' ''rating'' \<and>
   op_eq rating_ops rating_heap 3 3 \<and> \<not> op_eq rating_ops rating_heap 3 4"
proof -
  have a: "rating_ops 3 = RemoveField ''Pony'' ''rating''"
    by (simp add: rating_ops_def)
  have b: "rating_ops 4 = RemoveField ''Pony'' ''rating''"
    by (simp add: rating_ops_def)
  from RemoveField_equality_is_identity
      [where ops = rating_ops and h = rating_heap and a = 3 and b = 3, OF a]
    RemoveField_equality_is_identity
      [where ops = rating_ops and h = rating_heap and a = 3 and b = 4, OF a] a b
  show ?thesis
    by simp
qed

end
